theory Spec2Isabelle
  imports Main "HOL-Library.Word"
begin

section \<open>Python values, exceptions and log records\<close>

text \<open>
  ASGI scopes and messages are Python dictionaries with string keys. The values that
  occur in them are modelled by \<open>pyval\<close>; a dictionary is a partial map from keys to
  values. Comparing a value with a string literal by \<open>==\<close> is equality with the
  corresponding \<open>PStr\<close>: a value of any other kind is never equal to a string.
\<close>

datatype pyval =
    PNone
  | PBool bool
  | PInt int
  | PStr string
  | PBytes "8 word list"
  | PList "pyval list"

type_synonym pydict = "string \<rightharpoonup> pyval"

text \<open>
  Exceptions. \<open>CancelledError\<close> and \<open>OtherBaseException\<close> derive from
  \<open>BaseException\<close> only; every other constructor is a subclass of \<open>Exception\<close>.
  \<open>OtherException\<close> carries the class name and the message of the exception.
\<close>

datatype exn =
    KeyError string
  | TypeError
  | ReadTimeout
  | CancelledError
  | OtherException string string
  | OtherBaseException string

fun is_Exception :: "exn \<Rightarrow> bool" where
  "is_Exception CancelledError = False"
| "is_Exception (OtherBaseException _) = False"
| "is_Exception _ = True"

text \<open>
  The completion signal of a coroutine: \<open>Inr ()\<close> is a normal return, \<open>Inl e\<close> is
  the exception \<open>e\<close> propagating to the caller (cancellation is the exception
  \<open>CancelledError\<close> raised at an \<open>await\<close>).
\<close>

type_synonym signal = "exn + unit"

datatype level = DEBUG | INFO | ERROR

text \<open>
  One constructor for each log call of the source; the arguments are the values the
  f-string interpolates. \<open>Text\<close> is a call with a constant string.
\<close>

datatype log_msg =
    AsgiStart pyval
  | AsgiBody pyval nat pyval
  | ProtocolViolation pyval
  | ProtocolCompleted pyval
  | Text string
  | ResponseStatus int
  | ResponseHeaders "(string \<times> string) list"
  | ErrorLine exn

type_synonym log_record = "level \<times> log_msg"

definition dict_get :: "pydict \<Rightarrow> string \<Rightarrow> pyval \<Rightarrow> pyval" where
  "dict_get d k dflt = (case d k of None \<Rightarrow> dflt | Some v \<Rightarrow> v)"

text \<open>\<open>len(v)\<close>: defined on strings, bytes and sequences, a \<open>TypeError\<close> otherwise.\<close>

fun py_len :: "pyval \<Rightarrow> exn + nat" where
  "py_len (PStr s) = Inr (length s)"
| "py_len (PBytes b) = Inr (length b)"
| "py_len (PList vs) = Inr (length vs)"
| "py_len _ = Inl TypeError"

section \<open>The tracking middleware (server.py)\<close>

text \<open>
  The closure variables of one call of the middleware: \<open>path\<close> is assigned once,
  \<open>response_started\<close> and \<open>body_sent\<close> are the two \<open>nonlocal\<close> flags.
\<close>

record lifecycle =
  path :: pyval
  response_started :: bool
  body_sent :: bool

text \<open>
  The transport's \<open>send\<close> callable: it receives a message, may change the transport
  (whose state \<open>'tr\<close> is left open) and returns or raises.
\<close>

type_synonym 'tr send_fn = "pydict \<Rightarrow> 'tr \<Rightarrow> signal \<times> 'tr"

type_synonym 'tr tracked = "lifecycle \<times> log_record list \<times> 'tr"

text \<open>
  \<open>tracking_send\<close>, lines 38 to 53 of server.py. The state is the closure variables,
  the log and the transport. \<open>message["type"]\<close> raises \<open>KeyError\<close> when the key is
  missing; \<open>len\<close> raises after \<open>body_sent\<close> has been assigned and before the debug
  record is written; \<open>await send(message)\<close> is the last statement, so its signal is the
  signal of \<open>tracking_send\<close>.
\<close>

definition tracking_send :: "'tr send_fn \<Rightarrow> pydict \<Rightarrow> 'tr tracked \<Rightarrow> signal \<times> 'tr tracked" where
  "tracking_send send message = (\<lambda>(st, lg, tr).
     case message ''type'' of
       None \<Rightarrow> (Inl (KeyError ''type''), (st, lg, tr))
     | Some msg_type \<Rightarrow>
         if msg_type = PStr ''http.response.start'' then
           (let st1 = st\<lparr>response_started := True\<rparr>;
                lg1 = lg @ [(DEBUG, AsgiStart (path st))];
                (r, tr1) = send message tr
            in (r, (st1, lg1, tr1)))
         else if msg_type = PStr ''http.response.body'' then
           (let st1 = st\<lparr>body_sent := True\<rparr>;
                more_body = dict_get message ''more_body'' (PBool False)
            in case py_len (dict_get message ''body'' (PBytes [])) of
                 Inl e \<Rightarrow> (Inl e, (st1, lg, tr))
               | Inr body_len \<Rightarrow>
                   (let lg1 = lg @ [(DEBUG, AsgiBody (path st) body_len more_body)];
                        (r, tr1) = send message tr
                    in (r, (st1, lg1, tr1))))
         else
           (let (r, tr1) = send message tr
            in (r, (st, lg, tr1))))"

text \<open>
  The wrapped application, already applied to its scope and its \<open>receive\<close>: it ends
  with a signal, or awaits \<open>send\<close> on a message and goes on according to the signal
  that \<open>send\<close> gives back (it may catch an exception of \<open>send\<close>).
\<close>

datatype app = Finish signal | Emit pydict "signal \<Rightarrow> app"

primrec run_app :: "(pydict \<Rightarrow> 's \<Rightarrow> signal \<times> 's) \<Rightarrow> app \<Rightarrow> 's \<Rightarrow> signal \<times> 's" where
  "run_app snd_fn (Finish r) = (\<lambda>s. (r, s))"
| "run_app snd_fn (Emit m k) = (\<lambda>s. case snd_fn m s of (r, s1) \<Rightarrow> run_app snd_fn (k r) s1)"

text \<open>The messages the application passes to its \<open>send\<close> argument, in order.\<close>

primrec sent :: "(pydict \<Rightarrow> 's \<Rightarrow> signal \<times> 's) \<Rightarrow> app \<Rightarrow> 's \<Rightarrow> pydict list" where
  "sent snd_fn (Finish r) = (\<lambda>s. [])"
| "sent snd_fn (Emit m k) = (\<lambda>s. case snd_fn m s of (r, s1) \<Rightarrow> m # sent snd_fn (k r) s1)"

text \<open>The \<open>finally\<close> block, lines 57 to 65: an \<open>if\<close>/\<open>elif\<close> without \<open>else\<close>.\<close>

definition finally_block :: "lifecycle \<Rightarrow> log_record list \<Rightarrow> log_record list" where
  "finally_block st lg =
     (if response_started st \<and> \<not> body_sent st then lg @ [(ERROR, ProtocolViolation (path st))]
      else if response_started st \<and> body_sent st then lg @ [(DEBUG, ProtocolCompleted (path st))]
      else lg)"

text \<open>
  \<open>ASGITrackingMiddleware.__call__\<close>, lines 27 to 65. \<open>scope["type"]\<close> raises
  \<open>KeyError\<close> when the key is missing. A scope that is not HTTP runs the application
  on the transport's own \<open>send\<close>. Otherwise the application runs on \<open>tracking_send\<close>;
  the \<open>finally\<close> block runs whatever the signal of the application is, and the signal
  is passed on.
\<close>

definition initial_lifecycle :: "pydict \<Rightarrow> lifecycle" where
  "initial_lifecycle scope =
     \<lparr>path = dict_get scope ''path'' (PStr ''''), response_started = False, body_sent = False\<rparr>"

definition ASGITrackingMiddleware_call ::
  "app \<Rightarrow> pydict \<Rightarrow> 'tr send_fn \<Rightarrow> log_record list \<times> 'tr \<Rightarrow> signal \<times> log_record list \<times> 'tr" where
  "ASGITrackingMiddleware_call app scope send = (\<lambda>(lg, tr).
     case scope ''type'' of
       None \<Rightarrow> (Inl (KeyError ''type''), (lg, tr))
     | Some t \<Rightarrow>
         if t \<noteq> PStr ''http'' then
           (let (r, tr1) = run_app send app tr in (r, (lg, tr1)))
         else
           (let (r, (st1, lg1, tr1)) =
                  run_app (tracking_send send) app (initial_lifecycle scope, lg, tr)
            in (r, (finally_block st1 lg1, tr1))))"

text \<open>
  The messages of a list passed through \<open>tracking_send\<close> one after the other,
  whatever each call returns or raises.
\<close>

primrec send_all :: "'tr send_fn \<Rightarrow> pydict list \<Rightarrow> 'tr tracked \<Rightarrow> 'tr tracked" where
  "send_all send [] s = s"
| "send_all send (m # ms) s = send_all send ms (snd (tracking_send send m s))"

text \<open>A transport that records every message it is given and never raises.\<close>

definition recording_send :: "pydict list send_fn" where
  "recording_send m tr = (Inr (), tr @ [m])"

text \<open>A transport whose connection is gone: it records the message and raises.\<close>

definition failing_send :: "pydict list send_fn" where
  "failing_send m tr = (Inl (OtherException ''ClientDisconnect'' []), tr @ [m])"

section \<open>The immediate-disconnect client (client.py)\<close>

record response =
  status_code :: int
  headers :: "(string \<times> string) list"

text \<open>
  What the httpx library does during one run, as far as \<open>quick_disconnect_test\<close>
  sees it: entering and leaving the \<open>AsyncClient\<close> context, entering the
  \<open>client.stream\<close> context (which sends the request and reads the response headers
  under the one-second timeout) and leaving it (which closes the response).
\<close>

record httpx_env =
  client_enter :: "exn option"
  stream_enter :: "exn + response"
  stream_exit :: "exn option"
  client_exit :: "exn option"

text \<open>The two \<open>except\<close> clauses, lines 66 to 69, in the order of the source.\<close>

definition except_clauses :: "exn \<Rightarrow> log_record list \<Rightarrow> signal \<times> log_record list" where
  "except_clauses e lg =
     (if e = ReadTimeout then (Inr (), lg @ [(INFO, Text ''Timeout occurred (expected)'')])
      else if is_Exception e then (Inr (), lg @ [(ERROR, ErrorLine e)])
      else (Inl e, lg))"

text \<open>The \<open>try\<close> statement, lines 43 to 69.\<close>

definition try_statement :: "httpx_env \<Rightarrow> log_record list \<Rightarrow> signal \<times> log_record list" where
  "try_statement env lg =
     (let lg1 = lg @ [(INFO, Text ''Sending POST request with SSE Accept header...'')]
      in case stream_enter env of
           Inl e \<Rightarrow> except_clauses e lg1
         | Inr resp \<Rightarrow>
             (let lg2 = lg1 @ [(INFO, ResponseStatus (status_code resp)),
                               (INFO, ResponseHeaders (headers resp)),
                               (INFO, Text ''Closing connection immediately without reading events...'')]
              in case stream_exit env of
                   Some e \<Rightarrow> except_clauses e lg2
                 | None \<Rightarrow> (Inr (), lg2)))"

text \<open>
  \<open>quick_disconnect_test\<close>, lines 21 to 72. Leaving the \<open>AsyncClient\<close> context
  happens on every exit of the \<open>try\<close> statement; an exception raised there replaces
  the signal, otherwise the signal is passed on, and the two last records are written
  only after a normal exit.
\<close>

definition quick_disconnect_test :: "httpx_env \<Rightarrow> log_record list \<Rightarrow> signal \<times> log_record list" where
  "quick_disconnect_test env lg =
     (let lg0 = lg @ [(INFO, Text (replicate 60 (CHR ''=''))),
                      (INFO, Text ''TEST: Quick disconnect before first event''),
                      (INFO, Text (replicate 60 (CHR ''='')))]
      in case client_enter env of
           Some e \<Rightarrow> (Inl e, lg0)
         | None \<Rightarrow>
             (let (r, lg1) = try_statement env lg0
              in case client_exit env of
                   Some e \<Rightarrow> (Inl e, lg1)
                 | None \<Rightarrow>
                     (case r of
                        Inl e \<Rightarrow> (Inl e, lg1)
                      | Inr u \<Rightarrow> (Inr (), lg1 @ [(INFO, Text ''Connection closed''), (INFO, Text [])]))))"

section \<open>The vocabulary of the specification\<close>

datatype classification = Clean | Violation | Idle

text \<open>
  The classification as the specification words it, on the two flags of the
  Lifecycle State, to be compared with what \<open>finally_block\<close> does.
\<close>

definition classify_spec :: "bool \<Rightarrow> bool \<Rightarrow> classification" where
  "classify_spec started body =
     (if started = False then Idle
      else if started = True \<and> body = False then Violation
      else Clean)"

definition is_start :: "pydict \<Rightarrow> bool" where
  "is_start m = (m ''type'' = Some (PStr ''http.response.start''))"

definition is_body :: "pydict \<Rightarrow> bool" where
  "is_body m = (m ''type'' = Some (PStr ''http.response.body''))"

text \<open>Protocol order: the first start or body message of the list, if any, is a start.\<close>

fun start_before_body :: "pydict list \<Rightarrow> bool" where
  "start_before_body [] = True"
| "start_before_body (m # ms) =
     (if is_start m then True else if is_body m then False else start_before_body ms)"

text \<open>
  A message that \<open>tracking_send\<close> gets through without raising: it has a type, and a
  body message has a body with a length (or none).
\<close>

definition forwardable :: "pydict \<Rightarrow> bool" where
  "forwardable m =
     (m ''type'' \<noteq> None \<and>
      (is_body m \<longrightarrow> (\<exists>n. py_len (dict_get m ''body'' (PBytes [])) = Inr n)))"

text \<open>The exception raised while the request is open, if there is one.\<close>

definition request_exception :: "httpx_env \<Rightarrow> exn option" where
  "request_exception env =
     (case stream_enter env of Inl e \<Rightarrow> Some e | Inr resp \<Rightarrow> stream_exit env)"

section \<open>What one call of \<open>tracking_send\<close> does to the closure variables\<close>

lemma tracking_send_state:
  "fst (snd (tracking_send send m (st, lg, tr))) =
     st\<lparr>response_started := response_started st \<or> is_start m,
        body_sent := body_sent st \<or> is_body m\<rparr>"
  by (auto simp: tracking_send_def is_start_def is_body_def Let_def
           split: option.splits sum.splits prod.splits)

lemma tracking_send_cases:
  obtains r lg1 tr1 where
    "tracking_send send m (st, lg, tr) =
       (r, (st\<lparr>response_started := response_started st \<or> is_start m,
               body_sent := body_sent st \<or> is_body m\<rparr>, lg1, tr1))"
proof -
  obtain r st1 lg1 tr1 where e: "tracking_send send m (st, lg, tr) = (r, (st1, lg1, tr1))"
    by (metis prod.exhaust)
  have "st1 = st\<lparr>response_started := response_started st \<or> is_start m,
                 body_sent := body_sent st \<or> is_body m\<rparr>"
    using tracking_send_state [of send m st lg tr] e by simp
  with e show thesis using that by blast
qed

text \<open>
  Over a whole run of the application the flags are the disjunction over the messages
  it passed to \<open>tracking_send\<close>; the path never changes.
\<close>

lemma run_app_flags:
  "run_app (tracking_send send) a (st, lg, tr) = (r, (st1, lg1, tr1)) \<Longrightarrow>
     path st1 = path st \<and>
     response_started st1 =
       (response_started st \<or> (\<exists>m \<in> set (sent (tracking_send send) a (st, lg, tr)). is_start m)) \<and>
     body_sent st1 =
       (body_sent st \<or> (\<exists>m \<in> set (sent (tracking_send send) a (st, lg, tr)). is_body m))"
proof (induction a arbitrary: st lg tr)
  case (Finish x)
  then show ?case by simp
next
  case (Emit m k)
  obtain r0 lg0 tr0 where
    e: "tracking_send send m (st, lg, tr) =
       (r0, (st\<lparr>response_started := response_started st \<or> is_start m,
               body_sent := body_sent st \<or> is_body m\<rparr>, lg0, tr0))"
    by (rule tracking_send_cases)
  from Emit.prems e have
    "run_app (tracking_send send) (k r0)
       (st\<lparr>response_started := response_started st \<or> is_start m,
           body_sent := body_sent st \<or> is_body m\<rparr>, lg0, tr0) = (r, (st1, lg1, tr1))"
    by simp
  from Emit.IH [OF _ this] e show ?case
    by auto
qed

lemma finally_block_classify:
  "finally_block st lg =
     lg @ (case classify_spec (response_started st) (body_sent st) of
             Idle \<Rightarrow> []
           | Violation \<Rightarrow> [(ERROR, ProtocolViolation (path st))]
           | Clean \<Rightarrow> [(DEBUG, ProtocolCompleted (path st))])"
  by (simp add: finally_block_def classify_spec_def)

lemma call_http:
  "scope ''type'' = Some (PStr ''http'') \<Longrightarrow>
   run_app (tracking_send send) a (initial_lifecycle scope, lg, tr) = (r, (st1, lg1, tr1)) \<Longrightarrow>
     ASGITrackingMiddleware_call a scope send (lg, tr) = (r, (finally_block st1 lg1, tr1))"
  by (simp add: ASGITrackingMiddleware_call_def)

section \<open>Classification at completion\<close>

text \<open>
  Claim C1. For an HTTP request, let the application run on \<open>tracking_send\<close> and end
  with signal \<open>r\<close>. Then \<open>response_started\<close> is true exactly when one of the messages
  passed to \<open>tracking_send\<close> has type \<open>http.response.start\<close>, \<open>body_sent\<close> is true
  exactly when one has type \<open>http.response.body\<close>, and what the \<open>finally\<close> block does
  is decided by the classification of the specification on these two flags: nothing
  for Idle, the violation record for Violation, the completion record for Clean.
\<close>

theorem classification_at_completion:
  assumes http: "scope ''type'' = Some (PStr ''http'')"
    and run: "run_app (tracking_send send) a (initial_lifecycle scope, lg, tr) = (r, (st1, lg1, tr1))"
  shows "response_started st1 =
           (\<exists>m \<in> set (sent (tracking_send send) a (initial_lifecycle scope, lg, tr)). is_start m) \<and>
         body_sent st1 =
           (\<exists>m \<in> set (sent (tracking_send send) a (initial_lifecycle scope, lg, tr)). is_body m) \<and>
         ASGITrackingMiddleware_call a scope send (lg, tr) =
           (r, (lg1 @ (case classify_spec (response_started st1) (body_sent st1) of
                         Idle \<Rightarrow> []
                       | Violation \<Rightarrow> [(ERROR, ProtocolViolation (dict_get scope ''path'' (PStr '''')))]
                       | Clean \<Rightarrow> [(DEBUG, ProtocolCompleted (dict_get scope ''path'' (PStr '''')))]),
                tr1))"
proof -
  from run_app_flags [OF run] have
    p: "path st1 = dict_get scope ''path'' (PStr '''')"
    and s: "response_started st1 =
           (\<exists>m \<in> set (sent (tracking_send send) a (initial_lifecycle scope, lg, tr)). is_start m)"
    and b: "body_sent st1 =
           (\<exists>m \<in> set (sent (tracking_send send) a (initial_lifecycle scope, lg, tr)). is_body m)"
    by (simp_all add: initial_lifecycle_def)
  have c: "ASGITrackingMiddleware_call a scope send (lg, tr) = (r, (finally_block st1 lg1, tr1))"
    using http run by (rule call_http)
  have "finally_block st1 lg1 =
      lg1 @ (case classify_spec (response_started st1) (body_sent st1) of
               Idle \<Rightarrow> []
             | Violation \<Rightarrow> [(ERROR, ProtocolViolation (dict_get scope ''path'' (PStr '''')))]
             | Clean \<Rightarrow> [(DEBUG, ProtocolCompleted (dict_get scope ''path'' (PStr '''')))])"
    using p by (cases "classify_spec (response_started st1) (body_sent st1)")
      (simp_all add: finally_block_classify)
  with c s b show ?thesis by (simp only: simp_thms)
qed

text \<open>
  A request on \<open>/mcp\<close> whose handler sends the start message and is then cancelled:
  the violation record is written and the cancellation reaches the caller.
\<close>

theorem classification_at_completion_witness:
  "ASGITrackingMiddleware_call
     (Emit [''type'' \<mapsto> PStr ''http.response.start'', ''status'' \<mapsto> PInt 200]
        (\<lambda>r. Finish (Inl CancelledError)))
     [''type'' \<mapsto> PStr ''http'', ''path'' \<mapsto> PStr ''/mcp''] recording_send ([], []) =
   (Inl CancelledError,
    ([(DEBUG, AsgiStart (PStr ''/mcp'')), (ERROR, ProtocolViolation (PStr ''/mcp''))],
     [[''type'' \<mapsto> PStr ''http.response.start'', ''status'' \<mapsto> PInt 200]]))"
proof -
  let ?m = "[''type'' \<mapsto> PStr ''http.response.start'', ''status'' \<mapsto> PInt 200]"
  let ?a = "Emit ?m (\<lambda>r. Finish (Inl CancelledError))"
  let ?scope = "[''type'' \<mapsto> PStr ''http'', ''path'' \<mapsto> PStr ''/mcp'']"
  have http: "?scope ''type'' = Some (PStr ''http'')" by simp
  have run: "run_app (tracking_send recording_send) ?a (initial_lifecycle ?scope, [], []) =
      (Inl CancelledError,
       (\<lparr>path = PStr ''/mcp'', response_started = True, body_sent = False\<rparr>,
        [(DEBUG, AsgiStart (PStr ''/mcp''))], [?m]))"
    by (simp add: tracking_send_def recording_send_def initial_lifecycle_def dict_get_def)
  from classification_at_completion [OF http run] show ?thesis
    by (simp add: classify_spec_def dict_get_def)
qed

section \<open>The \<open>finally\<close> block runs on every exit and keeps the signal\<close>

text \<open>
  Claim C2. For an HTTP request, whatever signal \<open>r\<close> the application ends with on
  \<open>tracking_send\<close> (a normal return, an exception, a cancellation), the middleware
  ends with the same signal \<open>r\<close>, its log is the log at that point put through the
  \<open>finally\<close> block, which only appends to it, and the transport is as the application
  left it.
\<close>

theorem completion_signal_preserved:
  assumes http: "scope ''type'' = Some (PStr ''http'')"
    and run: "run_app (tracking_send send) a (initial_lifecycle scope, lg, tr) = (r, (st1, lg1, tr1))"
  shows "fst (ASGITrackingMiddleware_call a scope send (lg, tr)) = r \<and>
         fst (snd (ASGITrackingMiddleware_call a scope send (lg, tr))) = finally_block st1 lg1 \<and>
         take (length lg1) (finally_block st1 lg1) = lg1 \<and>
         snd (snd (ASGITrackingMiddleware_call a scope send (lg, tr))) = tr1"
  using call_http [OF http run] by (simp add: finally_block_def)

text \<open>
  A handler that sends the start message on a transport whose connection is gone and
  lets the exception of \<open>send\<close> through: the exception reaches the caller of the
  middleware, after the violation record.
\<close>

theorem completion_signal_preserved_witness:
  "fst (ASGITrackingMiddleware_call
     (Emit [''type'' \<mapsto> PStr ''http.response.start''] (\<lambda>r. Finish r))
     [''type'' \<mapsto> PStr ''http''] failing_send ([], [])) =
     Inl (OtherException ''ClientDisconnect'' []) \<and>
   fst (snd (ASGITrackingMiddleware_call
     (Emit [''type'' \<mapsto> PStr ''http.response.start''] (\<lambda>r. Finish r))
     [''type'' \<mapsto> PStr ''http''] failing_send ([], []))) =
     [(DEBUG, AsgiStart (PStr [])), (ERROR, ProtocolViolation (PStr []))]"
proof -
  let ?m = "[''type'' \<mapsto> PStr ''http.response.start'']"
  let ?scope = "[''type'' \<mapsto> PStr ''http'']"
  have http: "?scope ''type'' = Some (PStr ''http'')" by simp
  have run: "run_app (tracking_send failing_send) (Emit ?m (\<lambda>r. Finish r))
       (initial_lifecycle ?scope, [], []) =
      (Inl (OtherException ''ClientDisconnect'' []),
       (\<lparr>path = PStr [], response_started = True, body_sent = False\<rparr>,
        [(DEBUG, AsgiStart (PStr []))], [?m]))"
    by (simp add: tracking_send_def failing_send_def initial_lifecycle_def dict_get_def)
  from completion_signal_preserved [OF http run] show ?thesis
    by (simp add: finally_block_def)
qed

section \<open>Body before start\<close>

lemma send_all_started:
  "response_started st \<Longrightarrow> response_started (fst (send_all send ms (st, lg, tr)))"
proof (induction ms arbitrary: st lg tr)
  case Nil
  then show ?case by simp
next
  case (Cons m ms)
  obtain r lg1 tr1 where
    "tracking_send send m (st, lg, tr) =
       (r, (st\<lparr>response_started := response_started st \<or> is_start m,
               body_sent := body_sent st \<or> is_body m\<rparr>, lg1, tr1))"
    by (rule tracking_send_cases)
  with Cons show ?case by simp
qed

lemma send_all_invariant:
  "start_before_body ms \<Longrightarrow> \<not> body_sent st \<Longrightarrow>
     body_sent (fst (send_all send ms (st, lg, tr))) \<longrightarrow>
     response_started (fst (send_all send ms (st, lg, tr)))"
proof (induction ms arbitrary: st lg tr)
  case Nil
  then show ?case by simp
next
  case (Cons m ms)
  obtain r lg1 tr1 where
    e: "tracking_send send m (st, lg, tr) =
       (r, (st\<lparr>response_started := response_started st \<or> is_start m,
               body_sent := body_sent st \<or> is_body m\<rparr>, lg1, tr1))"
    by (rule tracking_send_cases)
  show ?case
  proof (cases "is_start m")
    case True
    with e show ?thesis by (simp add: send_all_started)
  next
    case False
    with Cons.prems have nb: "\<not> is_body m" and rest: "start_before_body ms"
      by (auto split: if_splits)
    from Cons.IH [OF rest, of "st\<lparr>response_started := response_started st \<or> is_start m,
               body_sent := body_sent st \<or> is_body m\<rparr>" lg1 tr1] Cons.prems(2) nb e
    show ?thesis by simp
  qed
qed

lemma start_before_body_take: "start_before_body ms \<Longrightarrow> start_before_body (take n ms)"
proof (induction ms arbitrary: n)
  case Nil
  then show ?case by simp
next
  case (Cons m ms)
  then show ?case by (cases n) (auto split: if_splits)
qed

text \<open>
  Claim C3, as stated, fails: \<open>tracking_send\<close> sets \<open>body_sent\<close> on a body message
  whatever \<open>response_started\<close> is. On a fresh request, a body message with no start
  before it leaves \<open>body_sent\<close> true and \<open>response_started\<close> false.
\<close>

theorem body_before_start:
  "body_sent (fst (snd (tracking_send recording_send
       [''type'' \<mapsto> PStr ''http.response.body'', ''body'' \<mapsto> PBytes [111, 107]]
       (initial_lifecycle [''type'' \<mapsto> PStr ''http'', ''path'' \<mapsto> PStr ''/mcp''], [], [])))) \<and>
   \<not> response_started (fst (snd (tracking_send recording_send
       [''type'' \<mapsto> PStr ''http.response.body'', ''body'' \<mapsto> PBytes [111, 107]]
       (initial_lifecycle [''type'' \<mapsto> PStr ''http'', ''path'' \<mapsto> PStr ''/mcp''], [], []))))"
  by (simp add: tracking_send_state is_start_def is_body_def initial_lifecycle_def)

text \<open>
  Claim C3, amended. For every list of messages in protocol order (no body message
  before the first start message) passed through \<open>tracking_send\<close> on a fresh request,
  with any transport, after each of them (after the first \<open>n\<close>, for every \<open>n\<close>)
  \<open>body_sent\<close> implies \<open>response_started\<close>.
\<close>

theorem body_after_start_in_order:
  "start_before_body ms \<Longrightarrow> n \<le> length ms \<Longrightarrow>
     body_sent (fst (send_all send (take n ms) (initial_lifecycle scope, lg, tr))) \<longrightarrow>
     response_started (fst (send_all send (take n ms) (initial_lifecycle scope, lg, tr)))"
  by (rule send_all_invariant) (simp_all add: start_before_body_take initial_lifecycle_def)

theorem body_after_start_in_order_witness:
  "start_before_body [[''type'' \<mapsto> PStr ''http.response.start''],
                      [''type'' \<mapsto> PStr ''http.response.body'', ''more_body'' \<mapsto> PBool True]] \<and>
   body_sent (fst (send_all recording_send
      (take 2 [[''type'' \<mapsto> PStr ''http.response.start''],
               [''type'' \<mapsto> PStr ''http.response.body'', ''more_body'' \<mapsto> PBool True]])
      (initial_lifecycle [''type'' \<mapsto> PStr ''http''], [], []))) \<and>
   response_started (fst (send_all recording_send
      (take 2 [[''type'' \<mapsto> PStr ''http.response.start''],
               [''type'' \<mapsto> PStr ''http.response.body'', ''more_body'' \<mapsto> PBool True]])
      (initial_lifecycle [''type'' \<mapsto> PStr ''http''], [], [])))"
proof -
  let ?ms = "[[''type'' \<mapsto> PStr ''http.response.start''],
              [''type'' \<mapsto> PStr ''http.response.body'', ''more_body'' \<mapsto> PBool True]]"
  have h: "start_before_body ?ms" by (simp add: is_start_def)
  have b: "body_sent (fst (send_all recording_send (take 2 ?ms)
      (initial_lifecycle [''type'' \<mapsto> PStr ''http''], [], [])))"
    by (simp add: tracking_send_def recording_send_def initial_lifecycle_def dict_get_def)
  from body_after_start_in_order [OF h, of 2 recording_send "[''type'' \<mapsto> PStr ''http'']" "[]" "[]"] h b
  show ?thesis by simp
qed

section \<open>The records written at completion\<close>

text \<open>
  Claim C4, as stated, fails for an Idle request: the \<open>finally\<close> block has no
  \<open>else\<close> branch. A handler that returns without sending anything leaves the log
  empty.
\<close>

theorem idle_request_no_record:
  "ASGITrackingMiddleware_call (Finish (Inr ()))
     [''type'' \<mapsto> PStr ''http'', ''path'' \<mapsto> PStr ''/mcp''] recording_send ([], []) =
   (Inr (), ([], []))"
  by (simp add: ASGITrackingMiddleware_call_def finally_block_def initial_lifecycle_def)

text \<open>
  Claim C4, amended. At the completion of an HTTP request the middleware appends to
  the log exactly one record of level \<open>ERROR\<close> when the classification is Violation,
  exactly one record of level \<open>DEBUG\<close> when it is Clean, and no record when it is
  Idle.
\<close>

theorem completion_records:
  assumes http: "scope ''type'' = Some (PStr ''http'')"
    and run: "run_app (tracking_send send) a (initial_lifecycle scope, lg, tr) = (r, (st1, lg1, tr1))"
  shows "\<exists>recs. fst (snd (ASGITrackingMiddleware_call a scope send (lg, tr))) = lg1 @ recs \<and>
           (classify_spec (response_started st1) (body_sent st1) = Violation \<longrightarrow>
              length recs = 1 \<and> (\<forall>x \<in> set recs. fst x = ERROR)) \<and>
           (classify_spec (response_started st1) (body_sent st1) = Clean \<longrightarrow>
              length recs = 1 \<and> (\<forall>x \<in> set recs. fst x = DEBUG)) \<and>
           (classify_spec (response_started st1) (body_sent st1) = Idle \<longrightarrow> recs = [])"
proof -
  from call_http [OF http run] have
    "fst (snd (ASGITrackingMiddleware_call a scope send (lg, tr))) = finally_block st1 lg1"
    by simp
  then show ?thesis
    by (simp add: finally_block_def classify_spec_def)
qed

theorem completion_records_witness:
  "\<exists>recs. fst (snd (ASGITrackingMiddleware_call
       (Emit [''type'' \<mapsto> PStr ''http.response.start'']
          (\<lambda>r. Emit [''type'' \<mapsto> PStr ''http.response.body'', ''body'' \<mapsto> PBytes [111, 107]]
             (\<lambda>r. Finish (Inr ()))))
       [''type'' \<mapsto> PStr ''http'', ''path'' \<mapsto> PStr ''/mcp''] recording_send ([], []))) =
     [(DEBUG, AsgiStart (PStr ''/mcp'')), (DEBUG, AsgiBody (PStr ''/mcp'') 2 (PBool False))] @ recs \<and>
     length recs = 1 \<and> (\<forall>x \<in> set recs. fst x = DEBUG)"
proof -
  let ?m1 = "[''type'' \<mapsto> PStr ''http.response.start'']"
  let ?m2 = "[''type'' \<mapsto> PStr ''http.response.body'', ''body'' \<mapsto> PBytes [111, 107]]"
  let ?a = "Emit ?m1 (\<lambda>r. Emit ?m2 (\<lambda>r. Finish (Inr ())))"
  let ?scope = "[''type'' \<mapsto> PStr ''http'', ''path'' \<mapsto> PStr ''/mcp'']"
  have http: "?scope ''type'' = Some (PStr ''http'')" by simp
  have run: "run_app (tracking_send recording_send) ?a (initial_lifecycle ?scope, [], []) =
      (Inr (),
       (\<lparr>path = PStr ''/mcp'', response_started = True, body_sent = True\<rparr>,
        [(DEBUG, AsgiStart (PStr ''/mcp'')), (DEBUG, AsgiBody (PStr ''/mcp'') 2 (PBool False))],
        [?m1, ?m2]))"
    by (simp add: tracking_send_def recording_send_def initial_lifecycle_def dict_get_def)
  from completion_records [OF http run] show ?thesis
    by (simp add: classify_spec_def)
qed

section \<open>Forwarding\<close>

lemma tracking_send_forwardable_ex:
  "forwardable m \<Longrightarrow>
     \<exists>lg1. tracking_send send m (st, lg, tr) =
       (fst (send m tr),
        (st\<lparr>response_started := response_started st \<or> is_start m,
            body_sent := body_sent st \<or> is_body m\<rparr>, lg1, snd (send m tr)))"
  by (cases "is_start m"; cases "is_body m")
    (auto simp: forwardable_def tracking_send_def is_body_def is_start_def Let_def split_beta)

lemma tracking_send_forwardable:
  assumes "forwardable m"
  obtains lg1 where
    "tracking_send send m (st, lg, tr) =
       (fst (send m tr),
        (st\<lparr>response_started := response_started st \<or> is_start m,
            body_sent := body_sent st \<or> is_body m\<rparr>, lg1, snd (send m tr)))"
  using tracking_send_forwardable_ex [OF assms, of send st lg tr] that by blast

lemma py_len_error: "py_len v = Inl e \<Longrightarrow> e = TypeError"
  by (cases v) simp_all

lemma tracking_send_not_forwardable:
  "\<not> forwardable m \<Longrightarrow>
     tracking_send send m (st, lg, tr) =
       (Inl (if m ''type'' = None then KeyError ''type'' else TypeError),
        (st\<lparr>body_sent := body_sent st \<or> is_body m\<rparr>, lg, tr))"
proof (cases "m ''type''")
  case None
  then show ?thesis by (simp add: tracking_send_def is_body_def)
next
  case (Some t)
  assume "\<not> forwardable m"
  with Some have b: "is_body m"
    and n: "\<And>n. py_len (dict_get m ''body'' (PBytes [])) \<noteq> Inr n"
    by (auto simp: forwardable_def)
  from n obtain e where e: "py_len (dict_get m ''body'' (PBytes [])) = Inl e"
    by (cases "py_len (dict_get m ''body'' (PBytes []))") auto
  then have "e = TypeError" by (rule py_len_error)
  with e b Some show ?thesis
    by (simp add: tracking_send_def is_body_def)
qed

text \<open>
  An application whose run passes only messages that get through \<open>tracking_send\<close>
  (whether the run is taken with the middleware or without it) ends with the same
  signal, leaves the transport in the same state and passes the same messages to
  \<open>send\<close> as when it runs on the transport's \<open>send\<close> directly. Only the run
  that happens is constrained, not the branches the application does not take.
\<close>

lemma run_app_transparent:
  "(\<forall>m \<in> set (sent (tracking_send send) a (st, lg, tr)). forwardable m) \<or>
   (\<forall>m \<in> set (sent send a tr). forwardable m) \<Longrightarrow>
     fst (run_app (tracking_send send) a (st, lg, tr)) = fst (run_app send a tr) \<and>
     snd (snd (snd (run_app (tracking_send send) a (st, lg, tr)))) = snd (run_app send a tr) \<and>
     sent (tracking_send send) a (st, lg, tr) = sent send a tr"
proof (induction a arbitrary: st lg tr)
  case (Finish x)
  then show ?case by simp
next
  case (Emit m k)
  have hd1: "sent (tracking_send send) (Emit m k) (st, lg, tr) =
      m # sent (tracking_send send) (k (fst (tracking_send send m (st, lg, tr))))
            (snd (tracking_send send m (st, lg, tr)))"
    by (simp add: split_beta)
  have hd2: "sent send (Emit m k) tr = m # sent send (k (fst (send m tr))) (snd (send m tr))"
    by (simp add: split_beta)
  from Emit.prems have p:
    "(\<forall>x \<in> set (m # sent (tracking_send send) (k (fst (tracking_send send m (st, lg, tr))))
            (snd (tracking_send send m (st, lg, tr)))). forwardable x) \<or>
     (\<forall>x \<in> set (m # sent send (k (fst (send m tr))) (snd (send m tr))). forwardable x)"
    by (simp only: hd1 hd2)
  then have fm: "forwardable m" by auto
  obtain lg1 where
    e: "tracking_send send m (st, lg, tr) =
       (fst (send m tr),
        (st\<lparr>response_started := response_started st \<or> is_start m,
            body_sent := body_sent st \<or> is_body m\<rparr>, lg1, snd (send m tr)))"
    using fm by (rule tracking_send_forwardable)
  let ?st = "st\<lparr>response_started := response_started st \<or> is_start m,
            body_sent := body_sent st \<or> is_body m\<rparr>"
  from p e have rest:
    "(\<forall>x \<in> set (sent (tracking_send send) (k (fst (send m tr))) (?st, lg1, snd (send m tr))). forwardable x) \<or>
     (\<forall>x \<in> set (sent send (k (fst (send m tr))) (snd (send m tr))). forwardable x)"
    by auto
  from Emit.IH [OF _ rest] e show ?case by (simp add: split_beta)
qed

text \<open>
  Claim C5, as stated, fails on two kinds of message, neither of which reaches the
  transport: a dictionary without the key \<open>type\<close> (\<open>KeyError\<close>, nothing else
  happens), and a body message whose \<open>body\<close> has no length (\<open>TypeError\<close>, after
  \<open>body_sent\<close> has been set). The recording transport stays empty in both cases.
\<close>

theorem untyped_message_dropped:
  "tracking_send recording_send [''more_body'' \<mapsto> PBool False]
     (\<lparr>path = PStr ''/mcp'', response_started = True, body_sent = False\<rparr>, [], []) =
   (Inl (KeyError ''type''),
    (\<lparr>path = PStr ''/mcp'', response_started = True, body_sent = False\<rparr>, [], [])) \<and>
   tracking_send recording_send [''type'' \<mapsto> PStr ''http.response.body'', ''body'' \<mapsto> PNone]
     (\<lparr>path = PStr ''/mcp'', response_started = True, body_sent = False\<rparr>, [], []) =
   (Inl TypeError,
    (\<lparr>path = PStr ''/mcp'', response_started = True, body_sent = True\<rparr>, [], []))"
  by (simp add: tracking_send_def dict_get_def)

text \<open>
  Claim C5, amended. For every message that has a \<open>type\<close> and, when it is a body
  message, a body with a length (or none), \<open>tracking_send\<close> updates the flags and
  calls the transport's \<open>send\<close> once, on that very message and on the transport as it
  stands: the signal and the new transport are those of \<open>send\<close>, also when \<open>send\<close>
  raises. Every other message is not forwarded: \<open>tracking_send\<close> raises
  \<open>KeyError\<close> when the key \<open>type\<close> is missing and \<open>TypeError\<close> when a body
  message has a body without a length (\<open>body_sent\<close> being set in that case), with
  the log and the transport as they were, whatever \<open>send\<close> is. For an application
  whose run emits only messages of the first kind, the signal, the transport and the
  sequence of messages given to \<open>send\<close> are the same with and without the
  middleware: nothing is dropped, changed, reordered or batched.
\<close>

theorem forwards_unmodified:
  "(forwardable m \<longrightarrow>
      fst (tracking_send send m (st, lg, tr)) = fst (send m tr) \<and>
      snd (snd (snd (tracking_send send m (st, lg, tr)))) = snd (send m tr) \<and>
      fst (snd (tracking_send send m (st, lg, tr))) =
        st\<lparr>response_started := response_started st \<or> is_start m,
           body_sent := body_sent st \<or> is_body m\<rparr>) \<and>
   (\<not> forwardable m \<longrightarrow>
      tracking_send send m (st, lg, tr) =
        (Inl (if m ''type'' = None then KeyError ''type'' else TypeError),
         (st\<lparr>body_sent := body_sent st \<or> is_body m\<rparr>, lg, tr))) \<and>
   ((\<forall>x \<in> set (sent (tracking_send send) a (st, lg, tr)). forwardable x) \<or>
    (\<forall>x \<in> set (sent send a tr). forwardable x) \<longrightarrow>
      fst (run_app (tracking_send send) a (st, lg, tr)) = fst (run_app send a tr) \<and>
      snd (snd (snd (run_app (tracking_send send) a (st, lg, tr)))) = snd (run_app send a tr) \<and>
      sent (tracking_send send) a (st, lg, tr) = sent send a tr)"
proof (intro conjI impI)
  assume fm: "forwardable m"
  obtain lg1 where
    e: "tracking_send send m (st, lg, tr) =
       (fst (send m tr),
        (st\<lparr>response_started := response_started st \<or> is_start m,
            body_sent := body_sent st \<or> is_body m\<rparr>, lg1, snd (send m tr)))"
    using fm by (rule tracking_send_forwardable)
  from e show "fst (tracking_send send m (st, lg, tr)) = fst (send m tr)" by simp
  from e show "snd (snd (snd (tracking_send send m (st, lg, tr)))) = snd (send m tr)" by simp
  from e show "fst (snd (tracking_send send m (st, lg, tr))) =
        st\<lparr>response_started := response_started st \<or> is_start m,
           body_sent := body_sent st \<or> is_body m\<rparr>" by simp
next
  assume "\<not> forwardable m"
  then show "tracking_send send m (st, lg, tr) =
        (Inl (if m ''type'' = None then KeyError ''type'' else TypeError),
         (st\<lparr>body_sent := body_sent st \<or> is_body m\<rparr>, lg, tr))"
    by (rule tracking_send_not_forwardable)
next
  assume h: "(\<forall>x \<in> set (sent (tracking_send send) a (st, lg, tr)). forwardable x) \<or>
    (\<forall>x \<in> set (sent send a tr). forwardable x)"
  from run_app_transparent [OF h]
  show "fst (run_app (tracking_send send) a (st, lg, tr)) = fst (run_app send a tr)"
    and "snd (snd (snd (run_app (tracking_send send) a (st, lg, tr)))) = snd (run_app send a tr)"
    and "sent (tracking_send send) a (st, lg, tr) = sent send a tr"
    by simp_all
qed

text \<open>
  A body message on a broken transport is forwarded and the flag is set; a body
  message whose body is an integer is not forwarded; a handler that would emit a
  dictionary without a type only after a failed \<open>send\<close> reaches the recording
  transport with its start and body messages, in that order.
\<close>

theorem forwards_unmodified_witness:
  "forwardable [''type'' \<mapsto> PStr ''http.response.body'', ''body'' \<mapsto> PBytes [111, 107]] \<and>
   snd (snd (snd (tracking_send failing_send
       [''type'' \<mapsto> PStr ''http.response.body'', ''body'' \<mapsto> PBytes [111, 107]]
       (\<lparr>path = PStr ''/mcp'', response_started = True, body_sent = False\<rparr>, [], [])))) =
     [[''type'' \<mapsto> PStr ''http.response.body'', ''body'' \<mapsto> PBytes [111, 107]]] \<and>
   fst (snd (tracking_send failing_send
       [''type'' \<mapsto> PStr ''http.response.body'', ''body'' \<mapsto> PBytes [111, 107]]
       (\<lparr>path = PStr ''/mcp'', response_started = True, body_sent = False\<rparr>, [], []))) =
     \<lparr>path = PStr ''/mcp'', response_started = True, body_sent = True\<rparr> \<and>
   \<not> forwardable [''type'' \<mapsto> PStr ''http.response.body'', ''body'' \<mapsto> PInt 7] \<and>
   tracking_send recording_send [''type'' \<mapsto> PStr ''http.response.body'', ''body'' \<mapsto> PInt 7]
       (\<lparr>path = PStr ''/mcp'', response_started = True, body_sent = False\<rparr>, [], []) =
     (Inl TypeError, (\<lparr>path = PStr ''/mcp'', response_started = True, body_sent = True\<rparr>, [], [])) \<and>
   forwardable [''type'' \<mapsto> PStr ''http.response.start''] \<and>
   sent recording_send
       (Emit [''type'' \<mapsto> PStr ''http.response.start'']
          (\<lambda>r. case r of
                  Inl e \<Rightarrow> Emit Map.empty (\<lambda>r. Finish (Inl e))
                | Inr u \<Rightarrow> Emit [''type'' \<mapsto> PStr ''http.response.body'', ''body'' \<mapsto> PBytes [111, 107]]
                            (\<lambda>r. Finish r))) [] =
     [[''type'' \<mapsto> PStr ''http.response.start''],
      [''type'' \<mapsto> PStr ''http.response.body'', ''body'' \<mapsto> PBytes [111, 107]]] \<and>
   snd (snd (snd (run_app (tracking_send recording_send)
       (Emit [''type'' \<mapsto> PStr ''http.response.start'']
          (\<lambda>r. case r of
                  Inl e \<Rightarrow> Emit Map.empty (\<lambda>r. Finish (Inl e))
                | Inr u \<Rightarrow> Emit [''type'' \<mapsto> PStr ''http.response.body'', ''body'' \<mapsto> PBytes [111, 107]]
                            (\<lambda>r. Finish r)))
       (\<lparr>path = PStr ''/mcp'', response_started = False, body_sent = False\<rparr>, [], [])))) =
     [[''type'' \<mapsto> PStr ''http.response.start''],
      [''type'' \<mapsto> PStr ''http.response.body'', ''body'' \<mapsto> PBytes [111, 107]]]"
proof -
  let ?m1 = "[''type'' \<mapsto> PStr ''http.response.start'']"
  let ?m2 = "[''type'' \<mapsto> PStr ''http.response.body'', ''body'' \<mapsto> PBytes [111, 107]]"
  let ?m3 = "[''type'' \<mapsto> PStr ''http.response.body'', ''body'' \<mapsto> PInt 7]"
  let ?a = "Emit ?m1 (\<lambda>r. case r of
                  Inl e \<Rightarrow> Emit Map.empty (\<lambda>r. Finish (Inl e))
                | Inr u \<Rightarrow> Emit ?m2 (\<lambda>r. Finish r))"
  let ?st = "\<lparr>path = PStr ''/mcp'', response_started = True, body_sent = False\<rparr>"
  have f1: "forwardable ?m1" by (simp add: forwardable_def is_body_def)
  have f2: "forwardable ?m2" by (simp add: forwardable_def is_body_def dict_get_def)
  have f3: "\<not> forwardable ?m3" by (simp add: forwardable_def is_body_def dict_get_def)
  have s: "sent recording_send ?a [] = [?m1, ?m2]" by (simp add: recording_send_def)
  have fa: "\<forall>x \<in> set (sent recording_send ?a []). forwardable x"
    using f1 f2 by (simp only: s) simp
  have t1: "snd (failing_send ?m2 []) = [?m2]" by (simp add: failing_send_def)
  have t2: "snd (run_app recording_send ?a []) = [?m1, ?m2]" by (simp add: recording_send_def)
  from forwards_unmodified [of ?m2 failing_send ?st "[]" "[]" "Finish (Inr ())"] f2 t1
  have 1: "snd (snd (snd (tracking_send failing_send ?m2 (?st, [], [])))) = [?m2]"
    and 2: "fst (snd (tracking_send failing_send ?m2 (?st, [], []))) =
       \<lparr>path = PStr ''/mcp'', response_started = True, body_sent = True\<rparr>"
    by (simp_all add: is_body_def is_start_def)
  from forwards_unmodified [of ?m3 recording_send ?st "[]" "[]" "Finish (Inr ())"] f3
  have 3: "tracking_send recording_send ?m3 (?st, [], []) =
     (Inl TypeError, (\<lparr>path = PStr ''/mcp'', response_started = True, body_sent = True\<rparr>, [], []))"
    by (simp add: is_body_def)
  from forwards_unmodified [of ?m1 recording_send
      "\<lparr>path = PStr ''/mcp'', response_started = False, body_sent = False\<rparr>" "[]" "[]" ?a] fa t2
  have 4: "snd (snd (snd (run_app (tracking_send recording_send) ?a
       (\<lparr>path = PStr ''/mcp'', response_started = False, body_sent = False\<rparr>, [], [])))) = [?m1, ?m2]"
    by simp
  from f2 1 2 f3 3 f1 s 4 show ?thesis by (intro conjI)
qed

section \<open>Determinism\<close>

text \<open>
  Claim C6. Take two runs of tracked requests, with any two handlers, transports,
  earlier logs and completion signals \<open>r1\<close> and \<open>r2\<close>. If the same sequence of
  messages was passed to \<open>tracking_send\<close> in both, the classification at completion
  is the same; and when both are HTTP requests on the same path, the \<open>finally\<close>
  block appends the same records in both. The model has no clock: timing acts only
  through what the handler and the transport do, and both are arbitrary here.
\<close>

theorem classification_deterministic:
  assumes run1: "run_app (tracking_send send1) a1 (initial_lifecycle scope1, lg1, tr1) = (r1, (st1, lg1', tr1'))"
    and run2: "run_app (tracking_send send2) a2 (initial_lifecycle scope2, lg2, tr2) = (r2, (st2, lg2', tr2'))"
    and same: "sent (tracking_send send1) a1 (initial_lifecycle scope1, lg1, tr1) =
               sent (tracking_send send2) a2 (initial_lifecycle scope2, lg2, tr2)"
  shows "classify_spec (response_started st1) (body_sent st1) =
           classify_spec (response_started st2) (body_sent st2) \<and>
         (scope1 ''type'' = Some (PStr ''http'') \<and> scope2 ''type'' = Some (PStr ''http'') \<and>
          dict_get scope1 ''path'' (PStr '''') = dict_get scope2 ''path'' (PStr '''') \<longrightarrow>
            (\<exists>recs. fst (snd (ASGITrackingMiddleware_call a1 scope1 send1 (lg1, tr1))) = lg1' @ recs \<and>
                    fst (snd (ASGITrackingMiddleware_call a2 scope2 send2 (lg2, tr2))) = lg2' @ recs))"
proof -
  from run_app_flags [OF run1] run_app_flags [OF run2] same
  have s: "response_started st1 = response_started st2"
    and b: "body_sent st1 = body_sent st2"
    and p1: "path st1 = dict_get scope1 ''path'' (PStr '''')"
    and p2: "path st2 = dict_get scope2 ''path'' (PStr '''')"
    by (simp_all add: initial_lifecycle_def)
  have "\<exists>recs. fst (snd (ASGITrackingMiddleware_call a1 scope1 send1 (lg1, tr1))) = lg1' @ recs \<and>
               fst (snd (ASGITrackingMiddleware_call a2 scope2 send2 (lg2, tr2))) = lg2' @ recs"
    if h1: "scope1 ''type'' = Some (PStr ''http'')" and h2: "scope2 ''type'' = Some (PStr ''http'')"
      and pe: "dict_get scope1 ''path'' (PStr '''') = dict_get scope2 ''path'' (PStr '''')"
  proof -
    have "fst (snd (ASGITrackingMiddleware_call a1 scope1 send1 (lg1, tr1))) = finally_block st1 lg1'"
      using call_http [OF h1 run1] by simp
    moreover have "fst (snd (ASGITrackingMiddleware_call a2 scope2 send2 (lg2, tr2))) = finally_block st2 lg2'"
      using call_http [OF h2 run2] by simp
    ultimately show ?thesis
      using s b p1 p2 pe by (simp add: finally_block_def)
  qed
  with s b show ?thesis by simp
qed

text \<open>
  One handler is cancelled after the start message, the other one dies of the
  exception of a broken transport, after an earlier log line: same messages, same
  record at completion.
\<close>

theorem classification_deterministic_witness:
  "classify_spec True False = classify_spec True False \<and>
   (\<exists>recs. fst (snd (ASGITrackingMiddleware_call
              (Emit [''type'' \<mapsto> PStr ''http.response.start''] (\<lambda>r. Finish (Inl CancelledError)))
              [''type'' \<mapsto> PStr ''http''] recording_send ([], []))) =
              [(DEBUG, AsgiStart (PStr []))] @ recs \<and>
           fst (snd (ASGITrackingMiddleware_call
              (Emit [''type'' \<mapsto> PStr ''http.response.start''] (\<lambda>r. Finish r))
              [''type'' \<mapsto> PStr ''http''] failing_send ([(INFO, Text ''earlier'')], []))) =
              [(INFO, Text ''earlier''), (DEBUG, AsgiStart (PStr []))] @ recs)"
proof -
  let ?m = "[''type'' \<mapsto> PStr ''http.response.start'']"
  let ?scope = "[''type'' \<mapsto> PStr ''http'']"
  let ?st = "\<lparr>path = PStr [], response_started = True, body_sent = False\<rparr>"
  have run1: "run_app (tracking_send recording_send) (Emit ?m (\<lambda>r. Finish (Inl CancelledError)))
       (initial_lifecycle ?scope, [], []) =
      (Inl CancelledError, (?st, [(DEBUG, AsgiStart (PStr []))], [?m]))"
    by (simp add: tracking_send_def recording_send_def initial_lifecycle_def dict_get_def)
  have run2: "run_app (tracking_send failing_send) (Emit ?m (\<lambda>r. Finish r))
       (initial_lifecycle ?scope, [(INFO, Text ''earlier'')], []) =
      (Inl (OtherException ''ClientDisconnect'' []),
       (?st, [(INFO, Text ''earlier''), (DEBUG, AsgiStart (PStr []))], [?m]))"
    by (simp add: tracking_send_def failing_send_def initial_lifecycle_def dict_get_def)
  have same: "sent (tracking_send recording_send) (Emit ?m (\<lambda>r. Finish (Inl CancelledError)))
       (initial_lifecycle ?scope, [], []) =
     sent (tracking_send failing_send) (Emit ?m (\<lambda>r. Finish r))
       (initial_lifecycle ?scope, [(INFO, Text ''earlier'')], [])"
    by (simp add: split_beta)
  from classification_deterministic [OF run1 run2 same] show ?thesis by simp
qed

section \<open>What observing a message changes\<close>

text \<open>
  Claim C7, as stated, fails in its last part: the closure holds \<open>path\<close>,
  \<open>response_started\<close> and \<open>body_sent\<close> and nothing that counts messages. Observing
  a start message on a request that has already started leaves the whole state as it
  was, so no number read from the state has gone up by one.
\<close>

theorem no_message_count:
  "fst (snd (tracking_send recording_send [''type'' \<mapsto> PStr ''http.response.start'']
       (\<lparr>path = PStr ''/mcp'', response_started = True, body_sent = False\<rparr>, [], []))) =
     \<lparr>path = PStr ''/mcp'', response_started = True, body_sent = False\<rparr> \<and>
   \<not> (\<exists>message_count :: lifecycle \<Rightarrow> nat.
        message_count (fst (snd (tracking_send recording_send [''type'' \<mapsto> PStr ''http.response.start'']
          (\<lparr>path = PStr ''/mcp'', response_started = True, body_sent = False\<rparr>, [], [])))) =
        message_count \<lparr>path = PStr ''/mcp'', response_started = True, body_sent = False\<rparr> + 1)"
  by (simp add: tracking_send_state is_start_def is_body_def)

text \<open>
  Claim C7, amended. Observing a start message sets \<open>response_started\<close>; observing a
  body message sets \<open>body_sent\<close>, whatever \<open>more_body\<close> is (any value, or absent);
  the path is never changed, and a message that is neither a start nor a body message
  leaves the state as it was. The state has no message count.
\<close>

theorem observe_flags:
  "(is_start message \<longrightarrow>
      response_started (fst (snd (tracking_send send message (st, lg, tr))))) \<and>
   (is_body message \<longrightarrow>
      (\<forall>v. body_sent (fst (snd (tracking_send send (message(''more_body'' := v)) (st, lg, tr)))))) \<and>
   path (fst (snd (tracking_send send message (st, lg, tr)))) = path st \<and>
   (\<not> is_start message \<and> \<not> is_body message \<longrightarrow>
      fst (snd (tracking_send send message (st, lg, tr))) = st)"
  by (simp add: tracking_send_state is_body_def)

theorem observe_flags_witness:
  "is_start [''type'' \<mapsto> PStr ''http.response.start''] \<and>
   response_started (fst (snd (tracking_send recording_send [''type'' \<mapsto> PStr ''http.response.start'']
      (\<lparr>path = PStr ''/mcp'', response_started = False, body_sent = False\<rparr>, [], [])))) \<and>
   is_body [''type'' \<mapsto> PStr ''http.response.body''] \<and>
   body_sent (fst (snd (tracking_send recording_send
      [''type'' \<mapsto> PStr ''http.response.body'', ''more_body'' \<mapsto> PBool True]
      (\<lparr>path = PStr ''/mcp'', response_started = True, body_sent = False\<rparr>, [], [])))) \<and>
   \<not> is_start [''type'' \<mapsto> PStr ''http.response.trailers''] \<and>
   \<not> is_body [''type'' \<mapsto> PStr ''http.response.trailers''] \<and>
   fst (snd (tracking_send recording_send [''type'' \<mapsto> PStr ''http.response.trailers'']
      (\<lparr>path = PStr ''/mcp'', response_started = True, body_sent = False\<rparr>, [], []))) =
     \<lparr>path = PStr ''/mcp'', response_started = True, body_sent = False\<rparr>"
proof -
  let ?s = "[''type'' \<mapsto> PStr ''http.response.start'']"
  let ?b = "[''type'' \<mapsto> PStr ''http.response.body'']"
  let ?t = "[''type'' \<mapsto> PStr ''http.response.trailers'']"
  have hs: "is_start ?s" by (simp add: is_start_def)
  have hb: "is_body ?b" by (simp add: is_body_def)
  have ht: "\<not> is_start ?t \<and> \<not> is_body ?t" by (simp add: is_start_def is_body_def)
  from observe_flags [of ?s recording_send
        "\<lparr>path = PStr ''/mcp'', response_started = False, body_sent = False\<rparr>" "[]" "[]"] hs
  have 1: "response_started (fst (snd (tracking_send recording_send ?s
      (\<lparr>path = PStr ''/mcp'', response_started = False, body_sent = False\<rparr>, [], []))))"
    by blast
  from observe_flags [of ?b recording_send
        "\<lparr>path = PStr ''/mcp'', response_started = True, body_sent = False\<rparr>" "[]" "[]"] hb
  have 2: "body_sent (fst (snd (tracking_send recording_send (?b(''more_body'' \<mapsto> PBool True))
      (\<lparr>path = PStr ''/mcp'', response_started = True, body_sent = False\<rparr>, [], []))))"
    by blast
  from observe_flags [of ?t recording_send
        "\<lparr>path = PStr ''/mcp'', response_started = True, body_sent = False\<rparr>" "[]" "[]"] ht
  have 3: "fst (snd (tracking_send recording_send ?t
      (\<lparr>path = PStr ''/mcp'', response_started = True, body_sent = False\<rparr>, [], []))) =
     \<lparr>path = PStr ''/mcp'', response_started = True, body_sent = False\<rparr>"
    by blast
  from hs hb ht 1 2 3 show ?thesis by blast
qed

section \<open>The immediate-disconnect client\<close>

text \<open>
  Claim C8. When the client context opens and closes without an exception and the
  request raises \<open>ReadTimeout\<close> (while the stream is entered or while it is left),
  \<open>quick_disconnect_test\<close> returns normally, writes the record
  \<open>Timeout occurred (expected)\<close> at level \<open>INFO\<close> and writes no record of level
  \<open>ERROR\<close>. A record of level \<open>ERROR\<close> is written exactly when the request raises
  an exception that derives from \<open>Exception\<close> and is not \<open>ReadTimeout\<close>.
\<close>

theorem read_timeout_expected:
  assumes "client_enter env = None" and "client_exit env = None"
  shows "(request_exception env = Some ReadTimeout \<longrightarrow>
            fst (quick_disconnect_test env lg) = Inr () \<and>
            (INFO, Text ''Timeout occurred (expected)'') \<in>
              set (drop (length lg) (snd (quick_disconnect_test env lg))) \<and>
            (\<forall>x \<in> set (drop (length lg) (snd (quick_disconnect_test env lg))). fst x \<noteq> ERROR)) \<and>
         ((\<exists>x \<in> set (drop (length lg) (snd (quick_disconnect_test env lg))). fst x = ERROR) =
            (\<exists>e. request_exception env = Some e \<and> e \<noteq> ReadTimeout \<and> is_Exception e))"
  using assms
  by (auto simp: quick_disconnect_test_def try_statement_def except_clauses_def
        request_exception_def Let_def split: sum.splits option.splits if_splits)

theorem read_timeout_expected_witness:
  "quick_disconnect_test
     \<lparr>client_enter = None, stream_enter = Inl ReadTimeout, stream_exit = None, client_exit = None\<rparr> [] =
   (Inr (),
    [(INFO, Text (replicate 60 (CHR ''=''))),
     (INFO, Text ''TEST: Quick disconnect before first event''),
     (INFO, Text (replicate 60 (CHR ''=''))),
     (INFO, Text ''Sending POST request with SSE Accept header...''),
     (INFO, Text ''Timeout occurred (expected)''),
     (INFO, Text ''Connection closed''),
     (INFO, Text [])]) \<and>
   fst (quick_disconnect_test
     \<lparr>client_enter = None, stream_enter = Inl ReadTimeout, stream_exit = None, client_exit = None\<rparr> []) = Inr () \<and>
   \<not> (\<exists>x \<in> set (drop (length ([] :: log_record list)) (snd (quick_disconnect_test
     \<lparr>client_enter = None, stream_enter = Inl ReadTimeout, stream_exit = None, client_exit = None\<rparr> []))).
        fst x = ERROR)"
proof -
  let ?env = "\<lparr>client_enter = None, stream_enter = Inl ReadTimeout, stream_exit = None, client_exit = None\<rparr>"
  have h1: "client_enter ?env = None" and h2: "client_exit ?env = None" by simp_all
  have h3: "request_exception ?env = Some ReadTimeout" by (simp add: request_exception_def)
  have full: "quick_disconnect_test ?env [] =
   (Inr (),
    [(INFO, Text (replicate 60 (CHR ''=''))),
     (INFO, Text ''TEST: Quick disconnect before first event''),
     (INFO, Text (replicate 60 (CHR ''=''))),
     (INFO, Text ''Sending POST request with SSE Accept header...''),
     (INFO, Text ''Timeout occurred (expected)''),
     (INFO, Text ''Connection closed''),
     (INFO, Text [])])"
    by (simp add: quick_disconnect_test_def try_statement_def except_clauses_def)
  from read_timeout_expected [OF h1 h2, of "[]"] h3 full show ?thesis
    by blast
qed

section \<open>Messages of other types, and messages without a type\<close>

text \<open>
  Claim C9. For a message whose type is neither \<open>http.response.start\<close> nor
  \<open>http.response.body\<close>, \<open>tracking_send\<close> leaves the closure variables (and the
  log) as they were and gives the message to the transport's \<open>send\<close>, whose signal
  and new transport are the result.
\<close>

theorem tracking_send_other_type:
  "message ''type'' = Some t \<Longrightarrow> t \<noteq> PStr ''http.response.start'' \<Longrightarrow>
   t \<noteq> PStr ''http.response.body'' \<Longrightarrow>
     tracking_send send message (st, lg, tr) =
       (fst (send message tr), (st, lg, snd (send message tr)))"
  by (simp add: tracking_send_def split: prod.splits)

theorem tracking_send_other_type_witness:
  "tracking_send recording_send [''type'' \<mapsto> PStr ''http.response.trailers'']
       (\<lparr>path = PStr ''/mcp'', response_started = True, body_sent = False\<rparr>, [], []) =
     (Inr (),
      (\<lparr>path = PStr ''/mcp'', response_started = True, body_sent = False\<rparr>, [],
       [[''type'' \<mapsto> PStr ''http.response.trailers'']]))"
  using tracking_send_other_type [of "[''type'' \<mapsto> PStr ''http.response.trailers'']"
      "PStr ''http.response.trailers''" recording_send
      "\<lparr>path = PStr ''/mcp'', response_started = True, body_sent = False\<rparr>" "[]" "[]"]
  by (simp add: recording_send_def)

text \<open>
  Claim C10. On a message dictionary without the key \<open>type\<close>, \<open>tracking_send\<close>
  raises \<open>KeyError\<close> and does nothing else: the closure variables, the log and the
  transport are as before, so nothing has been forwarded.
\<close>

theorem tracking_send_missing_type:
  "message ''type'' = None \<Longrightarrow>
     tracking_send send message (st, lg, tr) = (Inl (KeyError ''type''), (st, lg, tr))"
  by (simp add: tracking_send_def)

text \<open>
  Such an input exists: a dictionary with a body only. The recording transport, which
  would have kept the message, stays empty.
\<close>

theorem tracking_send_missing_type_witness:
  "[''body'' \<mapsto> PBytes [104, 105]] ''type'' = None \<and>
   tracking_send recording_send [''body'' \<mapsto> PBytes [104, 105]]
       (\<lparr>path = PStr ''/mcp'', response_started = False, body_sent = False\<rparr>, [], []) =
     (Inl (KeyError ''type''),
      (\<lparr>path = PStr ''/mcp'', response_started = False, body_sent = False\<rparr>, [], []))"
  using tracking_send_missing_type [of "[''body'' \<mapsto> PBytes [104, 105]]" recording_send
      "\<lparr>path = PStr ''/mcp'', response_started = False, body_sent = False\<rparr>" "[]" "[]"]
  by simp

end
